theory Spec2Isabelle
  imports Complex_Main "HOL-Library.Sublist"
begin

section \<open>Python values used by the advisor\<close>

text \<open>
  A Python \<open>float\<close> is modelled by the rational number it denotes (every finite double is
  a dyadic rational); \<open>nan\<close> and the infinities are left out. A Python \<open>int\<close> is an
  \<open>int\<close>, a \<open>str\<close> is a \<open>string\<close>, and a \<open>dict\<close> whose iteration order is
  observable is an association list in insertion order.
\<close>

datatype error =
    AttributeError string string
  | KeyError string
  | ValueError string
  | FileNotFoundError string
  | IndexError string

definition digit_char :: "nat \<Rightarrow> char" where
  "digit_char d = ''0123456789'' ! (d mod 10)"

fun str_nat :: "nat \<Rightarrow> string" where
  "str_nat n = (if n < 10 then [digit_char n] else str_nat (n div 10) @ [digit_char (n mod 10)])"

declare str_nat.simps [simp del]

text \<open>\<open>str(n)\<close> for a Python int.\<close>

definition str_int :: "int \<Rightarrow> string" where
  "str_int i = (if i < 0 then CHR ''-'' # str_nat (nat (- i)) else str_nat (nat i))"

text \<open>\<open>sep.join(xs)\<close>.\<close>

fun join :: "string \<Rightarrow> string list \<Rightarrow> string" where
  "join sep [] = []"
| "join sep [x] = x"
| "join sep (x # y # ys) = x @ sep @ join sep (y # ys)"

section \<open>Input validation (\<open>CattleNutritionAdvisor._validate_input\<close>)\<close>

record validation_rule =
  max_target_weight :: int

text \<open>\<open>self.validation_rules\<close>, in the order the dict literal lists its keys.\<close>

definition validation_rules :: "(string \<times> validation_rule) list" where
  "validation_rules =
    [(''growing_mature_bulls'', \<lparr>max_target_weight = 2300\<rparr>),
     (''growing_steer_heiver'', \<lparr>max_target_weight = 1400\<rparr>),
     (''growing_yearlings'', \<lparr>max_target_weight = 1400\<rparr>)]"


definition validate_input :: "string \<Rightarrow> rat \<Rightarrow> bool \<times> string" where
  "validate_input cattle_type target_weight =
    (case map_of validation_rules cattle_type of
       None \<Rightarrow>
         (False, ''Invalid cattle type. Must be one of: ''
                   @ join '', '' (map fst validation_rules))
     | Some rule \<Rightarrow>
         (let max_weight = max_target_weight rule in
          if target_weight > of_int max_weight
          then (False, ''Target weight for '' @ cattle_type @ '' should not exceed ''
                         @ str_int max_weight
                         @ '' lbs. Please consult an expert for higher weights.'')
          else (True, [])))"

section \<open>The predictor (\<open>NutritionPredictor\<close>)\<close>

text \<open>
  Objects of scikit-learn are modelled by what the predictor asks of them. A fitted
  \<open>StandardScaler\<close> holds a mean and a scale for each column; a fitted regressor is the
  function from one scaled feature row to its scaled prediction. Fitting is library code:
  it is a parameter of \<open>train\<close> and taken to return normally on the columns it is given.
  The fields \<open>sc_mean\<close> and \<open>sc_scale\<close> are the arrays \<open>mean_\<close> and \<open>scale_\<close>
  of the scaler, read by column index. Output written with \<open>print\<close> is not modelled.
\<close>

record scaler =
  sc_mean :: "nat \<Rightarrow> rat"
  sc_scale :: "nat \<Rightarrow> rat"

definition transform :: "scaler \<Rightarrow> rat list \<Rightarrow> rat list" where
  "transform sc row =
     map (\<lambda>(i, x). (x - sc_mean sc i) / sc_scale sc i) (zip [0..<length row] row)"

definition inverse_transform :: "scaler \<Rightarrow> rat list \<Rightarrow> rat list" where
  "inverse_transform sc row =
     map (\<lambda>(i, y). y * sc_scale sc i + sc_mean sc i) (zip [0..<length row] row)"

type_synonym model = "rat list \<Rightarrow> rat"

record scaler_set =
  features :: "scaler option"
  targets :: "string \<rightharpoonup> scaler"

record predictor =
  model_type :: string
  models :: "string \<rightharpoonup> model"
  scalers :: scaler_set

record sklearn =
  scaler_fit :: "rat list list \<Rightarrow> scaler"
  forest_fit :: "rat list list \<Rightarrow> rat list \<Rightarrow> model"

definition feature_columns :: "string list" where
  "feature_columns = [''type'', ''target_weight'', ''Body weight (lbs)'', ''ADG (lbs)'']"

definition target_columns :: "string list" where
  "target_columns =
    [''DM Intake (lbs/day)'', ''TDN (% DM)'', ''NEm (Mcal/lb)'',
     ''NEg (Mcal/lb)'', ''CP (% DM)'', ''Ca (%DM)'', ''P (% DM)'',
     ''TDN (lbs)'', ''NEm (Mcal)'', ''NEg (Mcal)'', ''CP (lbs)'',
     ''Ca (grams)'', ''P (grams)'']"

text \<open>\<open>NutritionPredictor.__init__\<close>; the caller's default argument is \<open>'random_forest'\<close>.\<close>

definition NutritionPredictor_init :: "string \<Rightarrow> predictor" where
  "NutritionPredictor_init mt =
     \<lparr>model_type = mt, models = Map.empty,
      scalers = \<lparr>features = None, targets = Map.empty\<rparr>\<rparr>"

text \<open>
  \<open>_get_model\<close>: the unfitted regressor carries no data of its own, so only whether the
  call returns or raises is kept.
\<close>

definition get_model :: "predictor \<Rightarrow> error + unit" where
  "get_model st =
     (if model_type st = ''random_forest'' then Inr ()
      else Inl (ValueError (''Unknown model type: '' @ model_type st)))"

text \<open>
  A \<open>DataFrame\<close> is the map from its column names to their values. \<open>df[cols]\<close> raises
  a \<open>KeyError\<close> when a column is missing (the payload here names the missing columns;
  the wording of pandas is not modelled) and gives the rows otherwise.
\<close>

type_synonym dataframe = "string \<rightharpoonup> rat list"

definition select_columns :: "dataframe \<Rightarrow> string list \<Rightarrow> error + rat list list" where
  "select_columns df cols =
     (case filter (\<lambda>c. df c = None) cols of
        [] \<Rightarrow> Inr (transpose (List.map_filter df cols))
      | c # cs \<Rightarrow> Inl (KeyError (join '', '' (c # cs))))"

text \<open>\<open>d[k] = v\<close> on a dict kept in insertion order.\<close>

fun dict_set :: "'k \<Rightarrow> 'v \<Rightarrow> ('k \<times> 'v) list \<Rightarrow> ('k \<times> 'v) list" where
  "dict_set k v [] = [(k, v)]"
| "dict_set k v ((k', v') # d) = (if k = k' then (k, v) # d else (k', v') # dict_set k v d)"

text \<open>
  The loop of \<open>train\<close> over \<open>self.target_columns\<close>. Every call returns the predictor as
  the call left it, next to the exception it raised, if any: the loop writes
  \<open>self.scalers['targets'][target]\<close> and \<open>self.models[target]\<close> as it goes.
\<close>

fun train_targets ::
  "sklearn \<Rightarrow> dataframe \<Rightarrow> rat list list \<Rightarrow> string list \<Rightarrow> predictor \<Rightarrow> error option \<times> predictor"
where
  "train_targets lib df X_scaled [] st = (None, st)"
| "train_targets lib df X_scaled (target # rest) st =
     (case df target of
        None \<Rightarrow> (Some (KeyError target), st)
      | Some y \<Rightarrow>
          (let sc = scaler_fit lib (map (\<lambda>v. [v]) y);
               st1 = st\<lparr>scalers := (scalers st)\<lparr>targets := (targets (scalers st))(target \<mapsto> sc)\<rparr>\<rparr>;
               y_scaled = concat (map (\<lambda>v. transform sc [v]) y)
           in case get_model st1 of
                Inl e \<Rightarrow> (Some e, st1)
              | Inr _ \<Rightarrow>
                  train_targets lib df X_scaled rest
                    (st1\<lparr>models := (models st1)(target \<mapsto> forest_fit lib X_scaled y_scaled)\<rparr>)))"

text \<open>\<open>train\<close>, from the \<open>DataFrame\<close> that \<open>pd.read_csv(data_path)\<close> returned.\<close>

definition train :: "sklearn \<Rightarrow> dataframe \<Rightarrow> predictor \<Rightarrow> error option \<times> predictor" where
  "train lib df st =
     (case select_columns df feature_columns of
        Inl e \<Rightarrow> (Some e, st)
      | Inr X \<Rightarrow>
          (let fsc = scaler_fit lib X;
               st1 = st\<lparr>scalers := (scalers st)\<lparr>features := Some fsc\<rparr>\<rparr>;
               X_scaled = map (transform fsc) X
           in train_targets lib df X_scaled target_columns st1))"

text \<open>The loop of \<open>predict\<close> over \<open>self.target_columns\<close>, filling \<open>predictions\<close>.\<close>

fun predict_targets ::
  "predictor \<Rightarrow> rat list \<Rightarrow> string list \<Rightarrow> (string \<times> rat) list \<Rightarrow> error + (string \<times> rat) list"
where
  "predict_targets st X_scaled [] predictions = Inr predictions"
| "predict_targets st X_scaled (target # rest) predictions =
     (case models st target of
        None \<Rightarrow> Inl (KeyError target)
      | Some m \<Rightarrow>
          (case targets (scalers st) target of
             None \<Rightarrow> Inl (KeyError target)
           | Some sc \<Rightarrow>
               (case inverse_transform sc [m X_scaled] of
                  [] \<Rightarrow> Inl (IndexError ''index 0 is out of bounds'')
                | v # _ \<Rightarrow> predict_targets st X_scaled rest (dict_set target v predictions))))"

definition predict :: "predictor \<Rightarrow> rat \<Rightarrow> rat \<Rightarrow> rat \<Rightarrow> rat \<Rightarrow> error + (string \<times> rat) list" where
  "predict st type_val target_weight body_weight adg =
     (case features (scalers st) of
        None \<Rightarrow> Inl (AttributeError ''NoneType'' ''transform'')
      | Some fsc \<Rightarrow>
          predict_targets st (transform fsc [type_val, target_weight, body_weight, adg])
            target_columns [])"

text \<open>
  Persistence. A \<open>joblib\<close> file is modelled by the object it holds; the store maps a path
  to the models dict, or to the scalers dict, dumped there. \<open>joblib.load\<close> of a path
  that holds nothing raises \<open>FileNotFoundError\<close>.
\<close>

record store =
  model_files :: "string \<rightharpoonup> (string \<rightharpoonup> model)"
  scaler_files :: "string \<rightharpoonup> scaler_set"

definition os_path_join :: "string \<Rightarrow> string \<Rightarrow> string" where
  "os_path_join a b =
     (if a = [] \<or> last a = CHR ''/'' then a @ b else a @ ''/'' @ b)"

definition save_models :: "store \<Rightarrow> string \<Rightarrow> predictor \<Rightarrow> store" where
  "save_models fs directory st =
     (let fs1 = fs\<lparr>model_files :=
                     (model_files fs)(os_path_join directory ''models.joblib'' \<mapsto> models st)\<rparr>
      in fs1\<lparr>scaler_files :=
                 (scaler_files fs1)(os_path_join directory ''scalers.joblib'' \<mapsto> scalers st)\<rparr>)"

definition load_models :: "store \<Rightarrow> string \<Rightarrow> predictor \<Rightarrow> error option \<times> predictor" where
  "load_models fs directory st =
     (case model_files fs (os_path_join directory ''models.joblib'') of
        None \<Rightarrow> (Some (FileNotFoundError (os_path_join directory ''models.joblib'')), st)
      | Some m \<Rightarrow>
          (let st1 = st\<lparr>models := m\<rparr> in
           case scaler_files fs (os_path_join directory ''scalers.joblib'') of
             None \<Rightarrow> (Some (FileNotFoundError (os_path_join directory ''scalers.joblib'')), st1)
           | Some s \<Rightarrow> (None, st1\<lparr>scalers := s\<rparr>)))"


text \<open>
  A predictor is initialised when it holds the feature scaler and, for each of the 13
  targets, a model and a target scaler.
\<close>

definition initialised :: "predictor \<Rightarrow> bool" where
  "initialised st =
     (features (scalers st) \<noteq> None \<and>
      list_all (\<lambda>t. models st t \<noteq> None \<and> targets (scalers st) t \<noteq> None) target_columns)"

section \<open>Example inputs\<close>

definition unit_scaler :: scaler where
  "unit_scaler = \<lparr>sc_mean = (\<lambda>_. 0), sc_scale = (\<lambda>_. 1)\<rparr>"




definition fresh_predictor :: predictor where
  "fresh_predictor = NutritionPredictor_init ''random_forest''"


text \<open>An artifact that holds every target but the last.\<close>

definition partial_store :: store where
  "partial_store =
     \<lparr>model_files = [''saved_models/models.joblib'' \<mapsto>
         (\<lambda>t. if t \<in> set (butlast target_columns) then Some sum_list else None)],
      scaler_files = [''saved_models/scalers.joblib'' \<mapsto>
         \<lparr>features = Some unit_scaler,
          targets = (\<lambda>t. if t \<in> set (butlast target_columns) then Some unit_scaler else None)\<rparr>]\<rparr>"


section \<open>The feed prompt (\<open>CattleNutritionAdvisor.generate_feed_recommendation\<close>)\<close>

definition nl :: string where
  "nl = [CHR 0x0A]"

text \<open>
  \<open>format(x, '.df')\<close> for a float: Python prints the exact value of the double, rounded
  to \<open>d\<close> decimals with ties to even, and keeps the sign of a negative value that
  rounds to zero.
\<close>

definition round_half_even :: "rat \<Rightarrow> int" where
  "round_half_even q =
     (let f = \<lfloor>q\<rfloor>; r = q - of_int f in
      if r < 1 / 2 then f
      else if 1 / 2 < r then f + 1
      else if even f then f else f + 1)"

definition zfill :: "nat \<Rightarrow> string \<Rightarrow> string" where
  "zfill w s = replicate (w - length s) CHR ''0'' @ s"

definition format_f :: "nat \<Rightarrow> rat \<Rightarrow> string" where
  "format_f d x =
     (let n = nat (round_half_even (\<bar>x\<bar> * 10 ^ d));
          ip = n div 10 ^ d;
          fp = n mod 10 ^ d
      in (if x < 0 then ''-'' else []) @ str_nat ip
         @ (if d = 0 then [] else ''.'' @ zfill d (str_nat fp)))"

text \<open>\<open>s.ljust(w)\<close>, which is what the format spec \<open><w\<close> does to a string.\<close>

definition ljust :: "nat \<Rightarrow> string \<Rightarrow> string" where
  "ljust w s = s @ replicate (w - length s) CHR '' ''"

text \<open>
  The numbers of the ingredient table are literals of the source: an int, or a float
  written as a short decimal. \<open>PyFloat m d\<close> is the float of the literal \<open>m / 10^d\<close>;
  for such a literal (at most 15 significant digits, magnitude in \<open>[1e-4, 1e16)\<close> or
  zero) Python's \<open>str\<close> prints the decimal with its trailing zeros removed and at
  least one digit after the point.
\<close>

datatype pynum = PyInt int | PyFloat int nat

definition str_float :: "int \<Rightarrow> nat \<Rightarrow> string" where
  "str_float m d =
     (let n = nat \<bar>m\<bar>;
          ip = n div 10 ^ d;
          fp = (if d = 0 then [] else zfill d (str_nat (n mod 10 ^ d)));
          fp' = rev (dropWhile (\<lambda>c. c = CHR ''0'') (rev fp))
      in (if m < 0 then ''-'' else []) @ str_nat ip @ ''.''
         @ (if fp' = [] then ''0'' else fp'))"

definition str_num :: "pynum \<Rightarrow> string" where
  "str_num v = (case v of PyInt i \<Rightarrow> str_int i | PyFloat m d \<Rightarrow> str_float m d)"

text \<open>
  One entry of \<open>self.feed_ingredients\<close>; the fields are the keys \<open>'TDN'\<close>, \<open>'NEm'\<close>,
  \<open>'NEg'\<close>, \<open>'CP'\<close>, \<open>'Ca'\<close> and \<open>'P'\<close> of the inner dict.
\<close>

record nutrients =
  nTDN :: pynum
  nNEm :: pynum
  nNEg :: pynum
  nCP :: pynum
  nCa :: pynum
  nP :: pynum

definition feed_ingredients :: "(string \<times> nutrients) list" where
  "feed_ingredients =
    [(''Alfalfa Hay'',
        \<lparr>nTDN = PyInt 58, nNEm = PyFloat 50 2, nNEg = PyFloat 30 2,
         nCP = PyInt 17, nCa = PyFloat 120 2, nP = PyFloat 22 2\<rparr>),
     (''Corn Silage'',
        \<lparr>nTDN = PyInt 65, nNEm = PyFloat 60 2, nNEg = PyFloat 35 2,
         nCP = PyInt 8, nCa = PyFloat 30 2, nP = PyFloat 22 2\<rparr>),
     (''Soybean Meal (48%)'',
        \<lparr>nTDN = PyInt 82, nNEm = PyFloat 70 2, nNEg = PyFloat 40 2,
         nCP = PyInt 48, nCa = PyFloat 30 2, nP = PyFloat 65 2\<rparr>),
     (''Ground Corn'',
        \<lparr>nTDN = PyInt 88, nNEm = PyFloat 90 2, nNEg = PyFloat 65 2,
         nCP = PyInt 9, nCa = PyFloat 2 2, nP = PyFloat 28 2\<rparr>),
     (''Dicalcium Phosphate'',
        \<lparr>nTDN = PyInt 0, nNEm = PyInt 0, nNEg = PyInt 0,
         nCP = PyInt 0, nCa = PyFloat 2300 2, nP = PyFloat 1800 2\<rparr>),
     (''Trace Mineral Mix'',
        \<lparr>nTDN = PyInt 0, nNEm = PyInt 0, nNEg = PyInt 0,
         nCP = PyInt 0, nCa = PyFloat 1200 2, nP = PyFloat 800 2\<rparr>),
     (''Salt'',
        \<lparr>nTDN = PyInt 0, nNEm = PyInt 0, nNEg = PyInt 0,
         nCP = PyInt 0, nCa = PyFloat 0 2, nP = PyFloat 0 2\<rparr>)]"

text \<open>
  An f-string is a list of pieces: literal text, and fields
  \<open>{predictions.get(key, 0):.df}\<close>.
\<close>

datatype piece = Lit string | Fld string nat

definition predictions_get :: "(string \<times> rat) list \<Rightarrow> string \<Rightarrow> rat" where
  "predictions_get predictions k = (case map_of predictions k of None \<Rightarrow> 0 | Some v \<Rightarrow> v)"

fun render_piece :: "(string \<times> rat) list \<Rightarrow> piece \<Rightarrow> string" where
  "render_piece predictions (Lit s) = s"
| "render_piece predictions (Fld k d) = format_f d (predictions_get predictions k)"

definition render :: "(string \<times> rat) list \<Rightarrow> piece list \<Rightarrow> string" where
  "render predictions ps = concat (map (render_piece predictions) ps)"

text \<open>The f-string that starts the prompt: the requirements and the head of the table.\<close>

definition requirements_template :: "piece list" where
  "requirements_template =
    [Lit (''You are an expert cattle nutritionist.'' @ nl),
     Lit nl,
     Lit (''A cow needs the following nutrients per day:'' @ nl),
     Lit ''- Dry Matter Intake (DMI): '',
     Fld ''DM Intake (lbs/day)'' 1,
     Lit ('' lbs'' @ nl),
     Lit ''- Total Digestible Nutrients (TDN): '',
     Fld ''TDN (% DM)'' 1,
     Lit ''% of DM ('',
     Fld ''TDN (lbs)'' 1,
     Lit ('' lbs)'' @ nl),
     Lit ''- Net Energy for Maintenance (NEm): '',
     Fld ''NEm (Mcal/lb)'' 2,
     Lit '' Mcal/lb ('',
     Fld ''NEm (Mcal)'' 1,
     Lit ('' Mcal)'' @ nl),
     Lit ''- Net Energy for Gain (NEg): '',
     Fld ''NEg (Mcal/lb)'' 2,
     Lit '' Mcal/lb ('',
     Fld ''NEg (Mcal)'' 1,
     Lit ('' Mcal)'' @ nl),
     Lit ''- Crude Protein (CP): '',
     Fld ''CP (% DM)'' 1,
     Lit ''% of DM ('',
     Fld ''CP (lbs)'' 2,
     Lit ('' lbs)'' @ nl),
     Lit ''- Calcium (Ca): '',
     Fld ''Ca (%DM)'' 2,
     Lit ''% of DM ('',
     Fld ''Ca (grams)'' 0,
     Lit ('' g)'' @ nl),
     Lit ''- Phosphorus (P): '',
     Fld ''P (% DM)'' 2,
     Lit ''% of DM ('',
     Fld ''P (grams)'' 0,
     Lit ('' g)'' @ nl),
     Lit nl,
     Lit (''Here is a list of available feed ingredients and their nutrient values per pound of dry matter:'' @ nl),
     Lit nl,
     Lit (''| Feed Ingredient        | TDN (%) | NEm (Mcal/lb) | NEg (Mcal/lb) | CP (%) | Ca (%) | P (%) |'' @ nl),
     Lit ''|------------------------|---------|----------------|----------------|--------|--------|--------|'']"

text \<open>The task text appended after the ingredient rows (an f-string without fields).\<close>

definition task_text :: string where
  "task_text =
     nl @
     nl @
     ''**Your Task:**'' @ nl @
     ''- Design a realistic daily feed menu of 5 to 7 ingredients from the available ingredients.'' @ nl @
     ''- Show quantity of each ingredient in pounds of dry matter.'' @ nl @
     ''- Calculate and show the contribution of each to total TDN, NEm, NEg, CP, Ca, and P.'' @ nl @
     ''- Ensure the totals are as close as possible to the cow's requirements above.'' @ nl @
     ''- Keep the ingredients reasonable and commonly used.''"

text \<open>The f-string that ends the prompt: the table the reply is asked to return.\<close>

definition return_template :: "piece list" where
  "return_template =
    [Lit nl,
     Lit nl,
     Lit (''Return a table like this:'' @ nl),
     Lit nl,
     Lit (''| Ingredient            | Amount (lbs DM) | TDN (lbs) | NEm (Mcal) | NEg (Mcal) | CP (lbs) | Ca (g) | P (g) |'' @ nl),
     Lit (''|-----------------------|------------------|------------|-------------|-------------|----------|--------|--------|'' @ nl),
     Lit (''| Feed 1                |                  |            |             |             |          |        |        |'' @ nl),
     Lit (''| ...                   |                  |            |             |             |          |        |        |'' @ nl),
     Lit ''| **Total**             | '',
     Fld ''DM Intake (lbs/day)'' 1,
     Lit '' | '',
     Fld ''TDN (lbs)'' 1,
     Lit '' | '',
     Fld ''NEm (Mcal)'' 1,
     Lit '' | '',
     Fld ''NEg (Mcal)'' 1,
     Lit '' | '',
     Fld ''CP (lbs)'' 2,
     Lit '' | '',
     Fld ''Ca (grams)'' 0,
     Lit '' | '',
     Fld ''P (grams)'' 0,
     Lit ('' |'' @ nl),
     Lit nl,
     Lit (''After your table, list any assumptions or notes you made.'' @ nl),
     Lit nl,
     Lit (''Start your response with: '' @ [CHR 0x22] @ ''Here is the feed menu that meets the cow's nutrient needs.'' @ [CHR 0x22] @ nl)]"

text \<open>\<open>d.pop(k, None)\<close>: the entry of \<open>k\<close> is removed when there is one.\<close>

definition dict_pop :: "'k \<Rightarrow> ('k \<times> 'v) list \<Rightarrow> ('k \<times> 'v) list" where
  "dict_pop k d = filter (\<lambda>(k', v). k' \<noteq> k) d"

text \<open>
  The argument \<open>unavailable_ingredients: list = None\<close> is a list or \<open>None\<close>; both
  \<open>None\<close> and the empty list are false in \<open>if unavailable_ingredients:\<close>.
\<close>

definition available_ingredients :: "string list option \<Rightarrow> (string \<times> nutrients) list" where
  "available_ingredients unavailable =
     (case unavailable of
        None \<Rightarrow> feed_ingredients
      | Some xs \<Rightarrow> if xs = [] then feed_ingredients else fold dict_pop xs feed_ingredients)"

definition format_row :: "string \<times> nutrients \<Rightarrow> string" where
  "format_row row =
     (case row of (name, vals) \<Rightarrow>
        nl @ ''| '' @ ljust 20 name
           @ '' | '' @ ljust 7 (str_num (nTDN vals))
           @ '' | '' @ ljust 12 (str_num (nNEm vals))
           @ '' | '' @ ljust 12 (str_num (nNEg vals))
           @ '' | '' @ ljust 6 (str_num (nCP vals))
           @ '' | '' @ ljust 6 (str_num (nCa vals))
           @ '' | '' @ ljust 6 (str_num (nP vals)) @ '' |'')"

definition unavailable_note :: "string list \<Rightarrow> string" where
  "unavailable_note xs =
     nl @ nl @ ''Note: The following ingredients are not available: '' @ join '', '' xs
        @ ''. Please adjust the feed menu accordingly.''"

text \<open>The value of \<open>prompt\<close> when it is handed to the text service.\<close>

definition feed_prompt :: "(string \<times> rat) list \<Rightarrow> string list option \<Rightarrow> string" where
  "feed_prompt predictions unavailable =
     (let prompt0 = render predictions requirements_template;
          available = available_ingredients unavailable;
          prompt1 = fold (\<lambda>row acc. acc @ format_row row) available prompt0;
          prompt2 = prompt1 @ task_text;
          prompt3 = (case unavailable of
                       None \<Rightarrow> prompt2
                     | Some xs \<Rightarrow> if xs = [] then prompt2 else prompt2 @ unavailable_note xs)
      in prompt3 @ render predictions return_template)"

text \<open>
  The text service is a parameter: it returns the reply's text, or the message of the
  exception it raised.
\<close>

definition generate_feed_recommendation ::
  "(string \<Rightarrow> string + string) \<Rightarrow> (string \<times> rat) list \<Rightarrow> string list option \<Rightarrow> string"
where
  "generate_feed_recommendation client predictions unavailable =
     (case client (feed_prompt predictions unavailable) of
        Inr reply \<Rightarrow> reply
      | Inl e \<Rightarrow> ''Error generating feed recommendation: '' @ e)"

text \<open>The number of characters after the decimal point of a printed number.\<close>

definition decimals :: "string \<Rightarrow> nat" where
  "decimals s = (case dropWhile (\<lambda>c. c \<noteq> CHR ''.'') s of [] \<Rightarrow> 0 | c # rest \<Rightarrow> length rest)"

definition template_fields :: "piece list \<Rightarrow> (string \<times> nat) list" where
  "template_fields ps = concat (map (\<lambda>p. case p of Lit s \<Rightarrow> [] | Fld k d \<Rightarrow> [(k, d)]) ps)"

section \<open>Properties of the validator\<close>

lemma sublist_join:
  "n \<in> set xs \<Longrightarrow> sublist n (join sep xs)"
proof (induction sep xs rule: join.induct)
  case (1 sep)
  then show ?case by simp
next
  case (2 sep x)
  then show ?case by simp
next
  case (3 sep x y ys)
  show ?case
  proof (cases "n = x")
    case True
    have "join sep (x # y # ys) = [] @ x @ (sep @ join sep (y # ys))" by simp
    then show ?thesis unfolding True sublist_def by blast
  next
    case False
    with 3 have "sublist n (join sep (y # ys))" by simp
    then obtain ps ss where "join sep (y # ys) = ps @ n @ ss"
      unfolding sublist_def by blast
    then have "join sep (x # y # ys) = (x @ sep @ ps) @ n @ ss" by simp
    then show ?thesis unfolding sublist_def by blast
  qed
qed

lemma sublist_middle: "sublist b (a @ b @ c)"
  unfolding sublist_def by blast

text \<open>
  C1. For a class name of the validation table and a target weight not above the class's
  \<open>max_target_weight\<close> the validator accepts with an empty reason; for a weight strictly
  above it the validator rejects and the reason contains the decimal text of the cap; for
  a name that is not in the table it rejects and the reason contains every class name of
  the table.
\<close>

theorem validate_input_cases:
  "(\<forall>rule. map_of validation_rules cattle_type = Some rule \<longrightarrow>
      (target_weight \<le> of_int (max_target_weight rule) \<longrightarrow>
         validate_input cattle_type target_weight = (True, [])) \<and>
      (of_int (max_target_weight rule) < target_weight \<longrightarrow>
         fst (validate_input cattle_type target_weight) = False \<and>
         sublist (str_int (max_target_weight rule))
                 (snd (validate_input cattle_type target_weight)))) \<and>
   (map_of validation_rules cattle_type = None \<longrightarrow>
      fst (validate_input cattle_type target_weight) = False \<and>
      (\<forall>n \<in> set (map fst validation_rules).
         sublist n (snd (validate_input cattle_type target_weight))))"
proof (intro conjI allI impI)
  fix rule
  assume "map_of validation_rules cattle_type = Some rule"
    and "target_weight \<le> of_int (max_target_weight rule)"
  then show "validate_input cattle_type target_weight = (True, [])"
    by (simp add: validate_input_def Let_def)
next
  fix rule
  assume "map_of validation_rules cattle_type = Some rule"
    and "of_int (max_target_weight rule) < target_weight"
  then show "fst (validate_input cattle_type target_weight) = False"
    by (simp add: validate_input_def Let_def)
next
  fix rule
  assume h: "map_of validation_rules cattle_type = Some rule"
    "of_int (max_target_weight rule) < target_weight"
  have "sublist (str_int (max_target_weight rule))
          ((''Target weight for '' @ cattle_type @ '' should not exceed '')
            @ str_int (max_target_weight rule)
            @ '' lbs. Please consult an expert for higher weights.'')"
    by (rule sublist_middle)
  with h show "sublist (str_int (max_target_weight rule))
                 (snd (validate_input cattle_type target_weight))"
    by (simp add: validate_input_def Let_def)
next
  assume "map_of validation_rules cattle_type = None"
  then show "fst (validate_input cattle_type target_weight) = False"
    by (simp add: validate_input_def)
next
  assume h: "map_of validation_rules cattle_type = None"
  show "\<forall>n \<in> set (map fst validation_rules).
          sublist n (snd (validate_input cattle_type target_weight))"
  proof
    fix n
    assume "n \<in> set (map fst validation_rules)"
    then have "sublist n (join '', '' (map fst validation_rules))"
      by (rule sublist_join)
    then obtain ps ss where "join '', '' (map fst validation_rules) = ps @ n @ ss"
      unfolding sublist_def by blast
    then have "snd (validate_input cattle_type target_weight)
                 = (''Invalid cattle type. Must be one of: '' @ ps) @ n @ ss"
      using h by (simp add: validate_input_def)
    then show "sublist n (snd (validate_input cattle_type target_weight))"
      unfolding sublist_def by blast
  qed
qed

lemma str_int_1400: "str_int 1400 = ''1400''"
  by (simp add: str_int_def str_nat.simps digit_char_def)

theorem validate_input_cases_witness:
  "validate_input ''growing_yearlings'' 1000 = (True, []) \<and>
   fst (validate_input ''growing_yearlings'' 2000) = False \<and>
   sublist ''1400'' (snd (validate_input ''growing_yearlings'' 2000)) \<and>
   snd (validate_input ''growing_yearlings'' 2000) =
     ''Target weight for growing_yearlings should not exceed 1400 lbs. Please consult an expert for higher weights.'' \<and>
   fst (validate_input ''cow'' 1000) = False \<and>
   snd (validate_input ''cow'' 1000) =
     ''Invalid cattle type. Must be one of: growing_mature_bulls, growing_steer_heiver, growing_yearlings'' \<and>
   sublist ''growing_steer_heiver'' (snd (validate_input ''cow'' 1000))"
proof -
  have known: "map_of validation_rules ''growing_yearlings'' = Some \<lparr>max_target_weight = 1400\<rparr>"
    by (simp add: validation_rules_def)
  have unknown: "map_of validation_rules ''cow'' = None"
    by (simp add: validation_rules_def)
  have names: "''growing_steer_heiver'' \<in> set (map fst validation_rules)"
    by (simp add: validation_rules_def)
  have msg: "snd (validate_input ''growing_yearlings'' 2000) =
     ''Target weight for growing_yearlings should not exceed 1400 lbs. Please consult an expert for higher weights.''"
    by (simp add: validate_input_def validation_rules_def str_int_1400)
  have msg': "snd (validate_input ''cow'' 1000) =
     ''Invalid cattle type. Must be one of: growing_mature_bulls, growing_steer_heiver, growing_yearlings''"
    by (simp add: validate_input_def validation_rules_def)
  show ?thesis
    using msg msg' validate_input_cases [of "''growing_yearlings''" 1000]
      validate_input_cases [of "''growing_yearlings''" 2000]
      validate_input_cases [of "''cow''" 1000]
      known unknown names str_int_1400
    by auto
qed
section \<open>Properties of the predictor\<close>


lemma inverse_transform_single:
  "inverse_transform sc [y] = [y * sc_scale sc 0 + sc_mean sc 0]"
  by (simp add: inverse_transform_def)



lemma predict_targets_missing:
  "t \<in> set ts \<Longrightarrow> models st t = None \<or> targets (scalers st) t = None \<Longrightarrow>
     \<exists>u \<in> set ts. predict_targets st X ts acc = Inl (KeyError u)"
  by (induction ts arbitrary: acc) (auto simp: inverse_transform_single split: option.splits)




lemma train_targets_state:
  "model_type st = ''random_forest'' \<Longrightarrow>
   fst (train_targets lib df X ts st)
     = (case dropWhile (\<lambda>t. df t \<noteq> None) ts of [] \<Rightarrow> None | t # _ \<Rightarrow> Some (KeyError t)) \<and>
   models (snd (train_targets lib df X ts st))
     = (\<lambda>u. if u \<in> set (takeWhile (\<lambda>t. df t \<noteq> None) ts)
            then map_option (\<lambda>y. forest_fit lib X
                   (concat (map (\<lambda>v. transform (scaler_fit lib (map (\<lambda>v. [v]) y)) [v]) y))) (df u)
            else models st u) \<and>
   targets (scalers (snd (train_targets lib df X ts st)))
     = (\<lambda>u. if u \<in> set (takeWhile (\<lambda>t. df t \<noteq> None) ts)
            then map_option (\<lambda>y. scaler_fit lib (map (\<lambda>v. [v]) y)) (df u)
            else targets (scalers st) u) \<and>
   features (scalers (snd (train_targets lib df X ts st))) = features (scalers st)"
proof (induction ts arbitrary: st)
  case Nil
  then show ?case by simp
next
  case (Cons t ts)
  show ?case
  proof (cases "df t")
    case None
    then show ?thesis by simp
  next
    case (Some y)
    let ?sc = "scaler_fit lib (map (\<lambda>v. [v]) y)"
    let ?st1 = "st\<lparr>scalers := (scalers st)\<lparr>targets := (targets (scalers st))(t \<mapsto> ?sc)\<rparr>\<rparr>"
    let ?st2 = "?st1\<lparr>models := (models ?st1)(t \<mapsto>
                  forest_fit lib X (concat (map (\<lambda>v. transform ?sc [v]) y)))\<rparr>"
    from Cons.prems have mt: "model_type ?st2 = ''random_forest''" by simp
    from Cons.prems have gm: "get_model ?st1 = Inr ()" by (simp add: get_model_def)
    from Some gm have step:
      "train_targets lib df X (t # ts) st = train_targets lib df X ts ?st2"
      by (simp add: Let_def)
    note IH = Cons.IH [OF mt]
    show ?thesis
      unfolding step using IH Some by (auto simp: fun_eq_iff)
  qed
qed

lemma train_targets_unknown_type:
  "model_type st \<noteq> ''random_forest'' \<Longrightarrow> fst (train_targets lib df X (t # ts) st) \<noteq> None"
  by (simp add: get_model_def Let_def split: option.splits)

lemma train_success_initialised:
  assumes "fst (train lib df st) = None"
  shows "initialised (snd (train lib df st))"
proof -
  from assms obtain X where X: "select_columns df feature_columns = Inr X"
    by (cases "select_columns df feature_columns") (auto simp: train_def)
  let ?fsc = "scaler_fit lib X"
  let ?st1 = "st\<lparr>scalers := (scalers st)\<lparr>features := Some ?fsc\<rparr>\<rparr>"
  let ?Xs = "map (transform ?fsc) X"
  from X have tr: "train lib df st = train_targets lib df ?Xs target_columns ?st1"
    by (simp add: train_def Let_def)
  have mt: "model_type ?st1 = ''random_forest''"
  proof (rule ccontr)
    assume "model_type ?st1 \<noteq> ''random_forest''"
    then have "fst (train_targets lib df ?Xs target_columns ?st1) \<noteq> None"
      unfolding target_columns_def by (rule train_targets_unknown_type)
    with assms tr show False by simp
  qed
  note S = train_targets_state [OF mt, of lib df ?Xs target_columns]
  from S assms tr have dw: "dropWhile (\<lambda>t. df t \<noteq> None) target_columns = []"
    by (auto split: list.splits)
  then have all: "\<forall>t \<in> set target_columns. df t \<noteq> None"
    by (simp add: dropWhile_eq_Nil_conv)
  then have tw: "takeWhile (\<lambda>t. df t \<noteq> None) target_columns = target_columns"
    by (simp add: takeWhile_eq_all_conv)
  from S all show ?thesis
    unfolding tr tw initialised_def list_all_iff by auto
qed
























lemma not_initialised_predict_fails:
  assumes "\<not> initialised st"
  shows "\<exists>e. predict st tv tw bw adg = Inl e"
proof (cases "features (scalers st)")
  case None
  then show ?thesis by (simp add: predict_def)
next
  case (Some fsc)
  with assms obtain t where "t \<in> set target_columns"
    "models st t = None \<or> targets (scalers st) t = None"
    by (auto simp: initialised_def list_all_iff)
  then have "\<exists>u \<in> set target_columns.
      predict_targets st (transform fsc [tv, tw, bw, adg]) target_columns [] = Inl (KeyError u)"
    by (rule predict_targets_missing)
  with Some show ?thesis by (auto simp: predict_def)
qed

text \<open>
  C4 (as amended). \<open>load_models\<close> fails exactly when the models file or the scalers file
  is absent. When both are present it succeeds and installs what they hold, without
  looking at the targets; an artifact that lacks the feature scaler, or the model or the
  scaler of a target, loads successfully, and the gap shows only when \<open>predict\<close> fails.
\<close>

theorem load_models_unchecked:
  "(fst (load_models fs d st) = None) =
     (model_files fs (os_path_join d ''models.joblib'') \<noteq> None \<and>
      scaler_files fs (os_path_join d ''scalers.joblib'') \<noteq> None) \<and>
   (\<forall>m s. model_files fs (os_path_join d ''models.joblib'') = Some m \<and>
          scaler_files fs (os_path_join d ''scalers.joblib'') = Some s \<longrightarrow>
      load_models fs d st = (None, st\<lparr>models := m, scalers := s\<rparr>) \<and>
      (\<not> initialised (st\<lparr>models := m, scalers := s\<rparr>) \<longrightarrow>
         (\<exists>e. predict (st\<lparr>models := m, scalers := s\<rparr>) tv tw bw adg = Inl e)))"
proof (intro conjI allI impI)
  show "(fst (load_models fs d st) = None) =
     (model_files fs (os_path_join d ''models.joblib'') \<noteq> None \<and>
      scaler_files fs (os_path_join d ''scalers.joblib'') \<noteq> None)"
    by (auto simp: load_models_def Let_def split: option.splits)
next
  fix m s
  assume "model_files fs (os_path_join d ''models.joblib'') = Some m \<and>
          scaler_files fs (os_path_join d ''scalers.joblib'') = Some s"
  then show "load_models fs d st = (None, st\<lparr>models := m, scalers := s\<rparr>)"
    by (simp add: load_models_def Let_def)
next
  fix m s
  assume "\<not> initialised (st\<lparr>models := m, scalers := s\<rparr>)"
  then show "\<exists>e. predict (st\<lparr>models := m, scalers := s\<rparr>) tv tw bw adg = Inl e"
    by (rule not_initialised_predict_fails)
qed

lemma saved_models_paths:
  "os_path_join ''saved_models'' ''models.joblib'' = ''saved_models/models.joblib''"
  "os_path_join ''saved_models'' ''scalers.joblib'' = ''saved_models/scalers.joblib''"
  by (simp_all add: os_path_join_def)

theorem load_models_unchecked_witness:
  "fst (load_models partial_store ''saved_models'' fresh_predictor) = None \<and>
   \<not> initialised (snd (load_models partial_store ''saved_models'' fresh_predictor)) \<and>
   (\<exists>e. predict (snd (load_models partial_store ''saved_models'' fresh_predictor)) 1 1000 600 (5 / 2)
          = Inl e)"
proof -
  let ?m = "\<lambda>t. if t \<in> set (butlast target_columns) then Some sum_list else None"
  let ?s = "\<lparr>features = Some unit_scaler,
          targets = (\<lambda>t. if t \<in> set (butlast target_columns) then Some unit_scaler else None)\<rparr>"
  have files: "model_files partial_store (os_path_join ''saved_models'' ''models.joblib'') = Some ?m \<and>
     scaler_files partial_store (os_path_join ''saved_models'' ''scalers.joblib'') = Some ?s"
    by (simp add: saved_models_paths partial_store_def)
  have inc: "\<not> initialised (fresh_predictor\<lparr>models := ?m, scalers := ?s\<rparr>)"
    by (simp add: initialised_def target_columns_def)
  from load_models_unchecked [of partial_store "''saved_models''" fresh_predictor 1 1000 600 "5 / 2"]
    files inc
  have "load_models partial_store ''saved_models'' fresh_predictor
          = (None, fresh_predictor\<lparr>models := ?m, scalers := ?s\<rparr>)"
    and "\<exists>e. predict (fresh_predictor\<lparr>models := ?m, scalers := ?s\<rparr>) 1 1000 600 (5 / 2) = Inl e"
    by blast+
  with inc show ?thesis by simp
qed

text \<open>
  C4 as stated fails: an artifact without the model and the scaler of \<open>P (grams)\<close> is
  loaded with success.
\<close>

theorem load_models_partial_counterexample:
  "fst (load_models partial_store ''saved_models'' fresh_predictor) = None \<and>
   models (snd (load_models partial_store ''saved_models'' fresh_predictor)) ''P (grams)'' = None \<and>
   targets (scalers (snd (load_models partial_store ''saved_models'' fresh_predictor))) ''P (grams)''
     = None"
  by (simp add: load_models_def saved_models_paths partial_store_def Let_def target_columns_def)

lemma predict_targets_cong:
  "models a = models b \<Longrightarrow> scalers a = scalers b \<Longrightarrow>
     predict_targets a X ts acc = predict_targets b X ts acc"
  by (induction ts arbitrary: acc) (auto split: option.splits list.splits)

lemma predict_cong:
  "models a = models b \<Longrightarrow> scalers a = scalers b \<Longrightarrow>
     predict a tv tw bw adg = predict b tv tw bw adg"
  by (simp add: predict_def predict_targets_cong [of a b] split: option.splits)

text \<open>
  C8. Loading what \<open>save_models\<close> wrote, into any predictor, succeeds and restores the
  saved models and scalers; \<open>predict\<close> then returns on every input what it returned
  before the save (equal results, hence equal within any tolerance).
\<close>

theorem save_load_roundtrip:
  "load_models (save_models fs d st) d st0
     = (None, st0\<lparr>models := models st, scalers := scalers st\<rparr>) \<and>
   predict (snd (load_models (save_models fs d st) d st0)) tv tw bw adg
     = predict st tv tw bw adg"
proof -
  have l: "load_models (save_models fs d st) d st0
     = (None, st0\<lparr>models := models st, scalers := scalers st\<rparr>)"
    by (simp add: load_models_def save_models_def Let_def)
  have "predict (st0\<lparr>models := models st, scalers := scalers st\<rparr>) tv tw bw adg
          = predict st tv tw bw adg"
    by (rule predict_cong) simp_all
  with l show ?thesis by simp
qed

section \<open>Properties of the feed prompt\<close>



lemma fold_rows:
  "fold (\<lambda>row acc. acc @ format_row row) rows acc = acc @ concat (map format_row rows)"
  by (induction rows arbitrary: acc) simp_all

lemma feed_prompt_parts:
  "feed_prompt p u =
     render p requirements_template @ concat (map format_row (available_ingredients u))
       @ task_text
       @ (case u of None \<Rightarrow> [] | Some xs \<Rightarrow> if xs = [] then [] else unavailable_note xs)
       @ render p return_template"
  by (simp add: feed_prompt_def Let_def fold_rows split: option.splits)

lemma length_feed_ingredients: "length feed_ingredients = 7"
  by (simp add: feed_ingredients_def)


text \<open>
  C10. With an empty exclusion list the prompt, and so the recommendation, is the one
  produced with no exclusion list: the table holds all 7 ingredients and the prompt has
  no note about unavailable ingredients.
\<close>

theorem empty_exclusion_same_as_none:
  "feed_prompt p (Some []) = feed_prompt p None \<and>
   generate_feed_recommendation client p (Some []) = generate_feed_recommendation client p None \<and>
   available_ingredients (Some []) = feed_ingredients \<and>
   length feed_ingredients = 7 \<and>
   feed_prompt p (Some []) =
     render p requirements_template @ concat (map format_row feed_ingredients)
       @ task_text @ render p return_template"
  by (simp add: feed_prompt_parts generate_feed_recommendation_def available_ingredients_def
        length_feed_ingredients)





lemma digit_char_not_dot: "digit_char d \<noteq> CHR ''.''"
proof -
  have "d mod 10 < length ''0123456789''" by simp
  then have "digit_char d \<in> set ''0123456789''"
    unfolding digit_char_def by (rule nth_mem)
  then show ?thesis by auto
qed

lemma str_nat_no_dot: "c \<in> set (str_nat n) \<Longrightarrow> c \<noteq> CHR ''.''"
proof (induction n rule: str_nat.induct)
  case (1 n)
  show ?case
  proof (cases "n < 10")
    case True
    with "1.prems" show ?thesis by (simp add: str_nat.simps [of n] digit_char_not_dot)
  next
    case False
    with "1.prems" have "c \<in> set (str_nat (n div 10)) \<or> c = digit_char (n mod 10)"
      by (auto simp: str_nat.simps [of n])
    with False "1.IH" show ?thesis using digit_char_not_dot [of "n mod 10"] by auto
  qed
qed

lemma length_str_nat: "n < 10 ^ d \<Longrightarrow> 0 < d \<Longrightarrow> length (str_nat n) \<le> d"
proof (induction d arbitrary: n)
  case 0
  then show ?case by simp
next
  case (Suc d)
  show ?case
  proof (cases "n < 10")
    case True
    then show ?thesis by (simp add: str_nat.simps [of n])
  next
    case False
    with Suc.prems have "0 < d" by (cases d) auto
    moreover from Suc.prems have "n div 10 < 10 ^ d" by (simp add: less_mult_imp_div_less mult.commute)
    ultimately have "length (str_nat (n div 10)) \<le> d" by (rule Suc.IH [rotated])
    with False show ?thesis by (simp add: str_nat.simps [of n])
  qed
qed

lemma length_zfill: "length s \<le> w \<Longrightarrow> length (zfill w s) = w"
  by (simp add: zfill_def)

lemma decimals_format_f: "decimals (format_f d x) = d"
proof -
  define n where "n = nat (round_half_even (\<bar>x\<bar> * 10 ^ d))"
  define sgn where "sgn = (if x < 0 then ''-'' else [])"
  define rest where "rest = (if d = 0 then [] else ''.'' @ zfill d (str_nat (n mod 10 ^ d)))"
  have f: "format_f d x = (sgn @ str_nat (n div 10 ^ d)) @ rest"
    by (simp add: format_f_def Let_def n_def sgn_def rest_def)
  have "\<And>c. c \<in> set (sgn @ str_nat (n div 10 ^ d)) \<Longrightarrow> c \<noteq> CHR ''.''"
    using str_nat_no_dot by (auto simp: sgn_def split: if_splits)
  then have dw: "dropWhile (\<lambda>c. c \<noteq> CHR ''.'') (format_f d x) = dropWhile (\<lambda>c. c \<noteq> CHR ''.'') rest"
    unfolding f by (rule dropWhile_append2)
  show ?thesis
  proof (cases "d = 0")
    case True
    then have "rest = []" by (simp add: rest_def)
    with dw have e: "dropWhile (\<lambda>c. c \<noteq> CHR ''.'') (format_f d x) = []" by simp
    show ?thesis unfolding decimals_def e using True by simp
  next
    case False
    have "n mod 10 ^ d < 10 ^ d" by simp
    with False have "length (str_nat (n mod 10 ^ d)) \<le> d" by (simp add: length_str_nat)
    then have l: "length (zfill d (str_nat (n mod 10 ^ d))) = d" by (rule length_zfill)
    from False have "rest = CHR ''.'' # zfill d (str_nat (n mod 10 ^ d))" by (simp add: rest_def)
    with dw have e: "dropWhile (\<lambda>c. c \<noteq> CHR ''.'') (format_f d x)
        = CHR ''.'' # zfill d (str_nat (n mod 10 ^ d))" by simp
    show ?thesis unfolding decimals_def e using l by simp
  qed
qed

text \<open>
  C9 (as amended). Every value of the prediction record is printed in fixed-point form
  with a number of decimals fixed per field, the same in the requirement lines and in
  the \<open>Total\<close> row: one decimal for DM intake, TDN lbs, NEm Mcal and NEg Mcal and also
  for the TDN and CP percentages; two decimals for NEm and NEg per lb, CP lbs and the Ca
  and P percentages; none for Ca and P grams.
\<close>

theorem summary_field_precisions:
  "template_fields requirements_template =
     [(''DM Intake (lbs/day)'', 1), (''TDN (% DM)'', 1), (''TDN (lbs)'', 1),
      (''NEm (Mcal/lb)'', 2), (''NEm (Mcal)'', 1), (''NEg (Mcal/lb)'', 2), (''NEg (Mcal)'', 1),
      (''CP (% DM)'', 1), (''CP (lbs)'', 2), (''Ca (%DM)'', 2), (''Ca (grams)'', 0),
      (''P (% DM)'', 2), (''P (grams)'', 0)] \<and>
   template_fields return_template =
     [(''DM Intake (lbs/day)'', 1), (''TDN (lbs)'', 1), (''NEm (Mcal)'', 1), (''NEg (Mcal)'', 1),
      (''CP (lbs)'', 2), (''Ca (grams)'', 0), (''P (grams)'', 0)] \<and>
   render_piece p (Fld k d) = format_f d (predictions_get p k) \<and>
   decimals (render_piece p (Fld k d)) = d"
proof -
  have a: "template_fields requirements_template =
     [(''DM Intake (lbs/day)'', 1), (''TDN (% DM)'', 1), (''TDN (lbs)'', 1),
      (''NEm (Mcal/lb)'', 2), (''NEm (Mcal)'', 1), (''NEg (Mcal/lb)'', 2), (''NEg (Mcal)'', 1),
      (''CP (% DM)'', 1), (''CP (lbs)'', 2), (''Ca (%DM)'', 2), (''Ca (grams)'', 0),
      (''P (% DM)'', 2), (''P (grams)'', 0)]"
    by (simp add: template_fields_def requirements_template_def)
  have b: "template_fields return_template =
     [(''DM Intake (lbs/day)'', 1), (''TDN (lbs)'', 1), (''NEm (Mcal)'', 1), (''NEg (Mcal)'', 1),
      (''CP (lbs)'', 2), (''Ca (grams)'', 0), (''P (grams)'', 0)]"
    by (simp add: template_fields_def return_template_def)
  from a b show ?thesis by (simp add: decimals_format_f)
qed

lemma tdn_percent_in_template: "Fld ''TDN (% DM)'' 1 \<in> set requirements_template"
  by (simp add: requirements_template_def)

lemma tdn_percent_rendered:
  "render [(''TDN (% DM)'', 261 / 4)]
      [Lit ''- Total Digestible Nutrients (TDN): '', Fld ''TDN (% DM)'' 1, Lit ''% of DM'']
     = ''- Total Digestible Nutrients (TDN): 65.2% of DM''"
  by code_simp

text \<open>
  C9 as stated fails: \<open>TDN (% DM)\<close> is a percentage field and is printed with one
  decimal, so 65.25 appears as 65.2.
\<close>

theorem percentage_one_decimal_counterexample:
  "Fld ''TDN (% DM)'' 1 \<in> set requirements_template \<and>
   CHR ''%'' \<in> set ''TDN (% DM)'' \<and>
   render [(''TDN (% DM)'', 261 / 4)]
      [Lit ''- Total Digestible Nutrients (TDN): '', Fld ''TDN (% DM)'' 1, Lit ''% of DM'']
     = ''- Total Digestible Nutrients (TDN): 65.2% of DM''"
  using tdn_percent_in_template tdn_percent_rendered by simp

end
